theory Spec2Isabelle
  imports Main "HOL-Library.Sublist" "HOL-Library.Char_ord"
begin

section \<open>JavaScript values and strings\<close>

text \<open>
  The extractor (\<^verbatim>\<open>src/services/otp-extractor.js\<close>) and the validators
  (\<^verbatim>\<open>src/utils/validators.js\<close>) are pure string functions. A JavaScript string is
  modelled as a \<^typ>\<open>string\<close>, one \<^typ>\<open>char\<close> for one code unit. The model is the
  JavaScript behaviour on ASCII text: a character above 127 is kept as it is by
  \<open>toUpperCase\<close> and \<open>toLowerCase\<close> and is neither a space, a digit nor a letter.

  The exported functions test their argument with \<^verbatim>\<open>!x\<close> and \<^verbatim>\<open>typeof x\<close>,
  so their argument is a JavaScript value. Only truthiness and the type tag are read.
\<close>

datatype jsval =
    JUndefined
  | JNull
  | JBoolean bool
  | JNumber int
  | JString string
  | JObject

fun truthy :: "jsval \<Rightarrow> bool" where
  "truthy JUndefined = False"
| "truthy JNull = False"
| "truthy (JBoolean b) = b"
| "truthy (JNumber n) = (n \<noteq> 0)"
| "truthy (JString s) = (s \<noteq> [])"
| "truthy JObject = True"

fun typeof :: "jsval \<Rightarrow> string" where
  "typeof JUndefined = ''undefined''"
| "typeof JNull = ''object''"
| "typeof (JBoolean b) = ''boolean''"
| "typeof (JNumber n) = ''number''"
| "typeof (JString s) = ''string''"
| "typeof JObject = ''object''"

subsection \<open>Characters\<close>

text \<open>Characters are ordered by their code.\<close>

definition in_range :: "char \<Rightarrow> char \<Rightarrow> char \<Rightarrow> bool" where
  "in_range lo hi c \<longleftrightarrow> lo \<le> c \<and> c \<le> hi"

definition isDigit :: "char \<Rightarrow> bool" where
  "isDigit c \<longleftrightarrow> in_range CHR ''0'' CHR ''9'' c"

definition isUpper :: "char \<Rightarrow> bool" where
  "isUpper c \<longleftrightarrow> in_range CHR ''A'' CHR ''Z'' c"

definition isLower :: "char \<Rightarrow> bool" where
  "isLower c \<longleftrightarrow> in_range CHR ''a'' CHR ''z'' c"

definition isAlnum :: "char \<Rightarrow> bool" where
  "isAlnum c \<longleftrightarrow> isLower c \<or> isUpper c \<or> isDigit c"

text \<open>\<^verbatim>\<open>\w\<close>, the word characters that \<^verbatim>\<open>\b\<close> looks at: \<^verbatim>\<open>[A-Za-z0-9_]\<close>.\<close>

definition isWordChar :: "char \<Rightarrow> bool" where
  "isWordChar c \<longleftrightarrow> isAlnum c \<or> c = CHR ''_''"

text \<open>\<^verbatim>\<open>\s\<close> and \<open>trim\<close>: TAB, LF, VT, FF, CR and SPACE.\<close>

definition isSpace :: "char \<Rightarrow> bool" where
  "isSpace c \<longleftrightarrow> c \<in> set [CHR 0x09, CHR 0x0A, CHR 0x0B, CHR 0x0C, CHR 0x0D, CHR '' '']"

text \<open>The line terminators, which \<^verbatim>\<open>.\<close> does not match.\<close>

definition isLineTerminator :: "char \<Rightarrow> bool" where
  "isLineTerminator c \<longleftrightarrow> c = CHR 0x0A \<or> c = CHR 0x0D"

definition toUpperChar :: "char \<Rightarrow> char" where
  "toUpperChar c = (if isLower c then char_of (of_char c - (32::nat)) else c)"

definition toLowerChar :: "char \<Rightarrow> char" where
  "toLowerChar c = (if isUpper c then char_of (of_char c + (32::nat)) else c)"

definition toUpperCase :: "string \<Rightarrow> string" where
  "toUpperCase s = map toUpperChar s"

definition toLowerCase :: "string \<Rightarrow> string" where
  "toLowerCase s = map toLowerChar s"

text \<open>\<open>String.prototype.trim\<close>.\<close>

definition trim :: "string \<Rightarrow> string" where
  "trim s = rev (dropWhile isSpace (rev (dropWhile isSpace s)))"

text \<open>\<open>s.includes(p)\<close>: \<open>p\<close> occurs in \<open>s\<close> as a contiguous substring.\<close>

fun str_includes :: "string \<Rightarrow> string \<Rightarrow> bool" where
  "str_includes [] p = (p = [])"
| "str_includes (c # cs) p = (prefix p (c # cs) \<or> str_includes cs p)"

text \<open>\<open>s.indexOf(p)\<close>: the first index where \<open>p\<close> occurs, \<open>None\<close> for \<open>-1\<close>.\<close>

fun indexOf :: "string \<Rightarrow> string \<Rightarrow> nat option" where
  "indexOf [] p = (if p = [] then Some 0 else None)"
| "indexOf (c # cs) p =
     (if prefix p (c # cs) then Some 0 else map_option Suc (indexOf cs p))"

text \<open>\<open>s.substring(i, j)\<close> for \<open>i \<le> j\<close>.\<close>

definition substring :: "string \<Rightarrow> nat \<Rightarrow> nat \<Rightarrow> string" where
  "substring s i j = take (j - i) (drop i s)"

section \<open>Regular expressions\<close>

text \<open>
  The patterns of both files are written in this syntax, and matched by a backtracking
  matcher that follows the ECMAScript semantics: a pattern, applied to a state, gives the
  list of the states it can end in, in the order in which backtracking tries them. The
  first element is the match that JavaScript reports.
\<close>

datatype citem =
    Single char                \<comment> \<open>one character\<close>
  | Range char char            \<comment> \<open>\<^verbatim>\<open>a-z\<close>\<close>
  | ClsDigit                   \<comment> \<open>\<^verbatim>\<open>\d\<close>\<close>
  | ClsSpace                   \<comment> \<open>\<^verbatim>\<open>\s\<close>\<close>
  | ClsNotSpace                \<comment> \<open>\<^verbatim>\<open>\S\<close>\<close>

datatype regex =
    Eps
  | Chr char                   \<comment> \<open>a literal character\<close>
  | Dot                        \<comment> \<open>\<^verbatim>\<open>.\<close>\<close>
  | Cls bool "citem list"      \<comment> \<open>\<^verbatim>\<open>[...]\<close>, or \<^verbatim>\<open>[^...]\<close> when the flag is set\<close>
  | Seq regex regex
  | Alt regex regex
  | Rep bool nat "nat option" regex
      \<comment> \<open>greedy or lazy quantifier with its minimum and maximum (\<open>None\<close>: unbounded)\<close>
  | Grp nat regex              \<comment> \<open>capture group with its number\<close>
  | Bref nat                   \<comment> \<open>backreference\<close>
  | Bol                        \<comment> \<open>\<^verbatim>\<open>^\<close>\<close>
  | Eol                        \<comment> \<open>\<^verbatim>\<open>$\<close>\<close>
  | WordB                      \<comment> \<open>\<^verbatim>\<open>\b\<close>\<close>

text \<open>
  A matcher state: the input before the current position (reversed, so that its head is
  the previous character), the input from the current position on, and the captures.
\<close>

record mstate =
  left :: string
  right :: string
  caps :: "nat \<Rightarrow> string option"

text \<open>
  Canonicalize of the ignore-case flag (without the unicode flag) maps a character to its
  upper case; a character above 127 is never identified with an ASCII one.
\<close>

definition ceq :: "bool \<Rightarrow> char \<Rightarrow> char \<Rightarrow> bool" where
  "ceq ic a b \<longleftrightarrow> (if ic then toUpperChar a = toUpperChar b else a = b)"

fun in_item :: "citem \<Rightarrow> char \<Rightarrow> bool" where
  "in_item (Single a) c = (c = a)"
| "in_item (Range lo hi) c = in_range lo hi c"
| "in_item ClsDigit c = isDigit c"
| "in_item ClsSpace c = isSpace c"
| "in_item ClsNotSpace c = (\<not> isSpace c)"

text \<open>
  CharacterSetMatcher: a class holds \<open>c\<close> when one of its members has the canonical form
  of \<open>c\<close>.
\<close>

definition in_class :: "bool \<Rightarrow> citem list \<Rightarrow> char \<Rightarrow> bool" where
  "in_class ic items c \<longleftrightarrow>
     list_ex (\<lambda>i. in_item i c \<or> (ic \<and> (in_item i (toUpperChar c) \<or> in_item i (toLowerChar c)))) items"

text \<open>Consume one character that satisfies \<open>P\<close>.\<close>

definition step :: "(char \<Rightarrow> bool) \<Rightarrow> mstate \<Rightarrow> mstate list" where
  "step P x =
     (case right x of
        [] \<Rightarrow> []
      | c # cs \<Rightarrow> if P c then [x\<lparr>left := c # left x, right := cs\<rparr>] else [])"

text \<open>An assertion consumes nothing.\<close>

definition assertion :: "(mstate \<Rightarrow> bool) \<Rightarrow> mstate \<Rightarrow> mstate list" where
  "assertion P x = (if P x then [x] else [])"

definition at_word_boundary :: "mstate \<Rightarrow> bool" where
  "at_word_boundary x \<longleftrightarrow>
     (case left x of [] \<Rightarrow> False | a # _ \<Rightarrow> isWordChar a)
       \<noteq> (case right x of [] \<Rightarrow> False | b # _ \<Rightarrow> isWordChar b)"

text \<open>
  RepeatMatcher. \<open>k\<close> counts the iterations that are still allowed, \<open>mn\<close> those that are
  still required. An iteration that is not required and consumes nothing is rejected.
\<close>

fun repeat :: "bool \<Rightarrow> nat \<Rightarrow> nat \<Rightarrow> (mstate \<Rightarrow> mstate list) \<Rightarrow> mstate \<Rightarrow> mstate list" where
  "repeat g mn 0 m x = [x]"
| "repeat g mn (Suc k) m x =
     (let iter = concat (map (\<lambda>y. if mn = 0 \<and> length (right y) = length (right x) then []
                                   else repeat g (mn - 1) k m y) (m x))
      in if mn \<noteq> 0 then iter else if g then iter @ [x] else x # iter)"

text \<open>
  An unbounded quantifier is run with \<open>mn + length (right x)\<close> allowed iterations: after
  the required ones every iteration consumes at least one character, so that no match
  has more.
\<close>

definition rep_bound :: "nat \<Rightarrow> nat option \<Rightarrow> mstate \<Rightarrow> nat" where
  "rep_bound mn mx x = (case mx of None \<Rightarrow> mn + length (right x) | Some k \<Rightarrow> k)"

text \<open>The text that a group has consumed between two states.\<close>

definition consumed :: "mstate \<Rightarrow> mstate \<Rightarrow> string" where
  "consumed x y = take (length (right x) - length (right y)) (right x)"

text \<open>A backreference to a group that has not captured matches the empty string.\<close>

fun match_string :: "bool \<Rightarrow> string \<Rightarrow> mstate \<Rightarrow> mstate list" where
  "match_string ic [] x = [x]"
| "match_string ic (a # as) x = concat (map (match_string ic as) (step (ceq ic a) x))"

primrec rmatch :: "bool \<Rightarrow> regex \<Rightarrow> mstate \<Rightarrow> mstate list" where
  "rmatch ic Eps = (\<lambda>x. [x])"
| "rmatch ic (Chr a) = step (ceq ic a)"
| "rmatch ic Dot = step (\<lambda>c. \<not> isLineTerminator c)"
| "rmatch ic (Cls neg items) = step (\<lambda>c. in_class ic items c \<noteq> neg)"
| "rmatch ic (Seq r1 r2) = (\<lambda>x. concat (map (rmatch ic r2) (rmatch ic r1 x)))"
| "rmatch ic (Alt r1 r2) = (\<lambda>x. rmatch ic r1 x @ rmatch ic r2 x)"
| "rmatch ic (Rep g mn mx r) = (\<lambda>x. repeat g mn (rep_bound mn mx x) (rmatch ic r) x)"
| "rmatch ic (Grp n r) =
     (\<lambda>x. map (\<lambda>y. y\<lparr>caps := (caps y)(n \<mapsto> consumed x y)\<rparr>) (rmatch ic r x))"
| "rmatch ic (Bref n) =
     (\<lambda>x. case caps x n of None \<Rightarrow> [x] | Some s \<Rightarrow> match_string ic s x)"
| "rmatch ic Bol = assertion (\<lambda>x. left x = [])"
| "rmatch ic Eol = assertion (\<lambda>x. right x = [])"
| "rmatch ic WordB = assertion at_word_boundary"

text \<open>Pattern syntax: a literal string, a sequence, alternatives, the usual quantifiers.\<close>

definition Str :: "string \<Rightarrow> regex" where
  "Str s = foldr (\<lambda>c r. Seq (Chr c) r) s Eps"

definition Seqs :: "regex list \<Rightarrow> regex" where
  "Seqs rs = foldr Seq rs Eps"

definition Alts :: "regex list \<Rightarrow> regex" where
  "Alts rs = foldr Alt (butlast rs) (last rs)"

definition Opt :: "regex \<Rightarrow> regex" where
  "Opt r = Rep True 0 (Some 1) r"

definition Star :: "regex \<Rightarrow> regex" where
  "Star r = Rep True 0 None r"

definition Plus :: "regex \<Rightarrow> regex" where
  "Plus r = Rep True 1 None r"

definition Times :: "nat \<Rightarrow> nat \<Rightarrow> regex \<Rightarrow> regex" where
  "Times mn mx r = Rep True mn (Some mx) r"

definition LazyTimes :: "nat \<Rightarrow> nat \<Rightarrow> regex \<Rightarrow> regex" where
  "LazyTimes mn mx r = Rep False mn (Some mx) r"

abbreviation Digit :: regex where
  "Digit \<equiv> Cls False [Range CHR ''0'' CHR ''9'']"

abbreviation Space :: regex where
  "Space \<equiv> Cls False [ClsSpace]"

subsection \<open>Running a pattern on a string\<close>

text \<open>A successful match: the state where the match starts and the state where it ends.\<close>

record rmatch_result =
  start :: mstate
  final :: mstate

definition init :: "string \<Rightarrow> string \<Rightarrow> mstate" where
  "init l rt = \<lparr>left = l, right = rt, caps = \<lambda>_. None\<rparr>"

text \<open>
  RegExpBuiltinExec: the pattern is tried at the start position, then one character
  further, and so on up to the end of the input.
\<close>

fun exec_from :: "bool \<Rightarrow> regex \<Rightarrow> string \<Rightarrow> string \<Rightarrow> rmatch_result option" where
  "exec_from ic r l [] =
     (case rmatch ic r (init l []) of
        y # _ \<Rightarrow> Some \<lparr>start = init l [], final = y\<rparr>
      | [] \<Rightarrow> None)"
| "exec_from ic r l (c # cs) =
     (case rmatch ic r (init l (c # cs)) of
        y # _ \<Rightarrow> Some \<lparr>start = init l (c # cs), final = y\<rparr>
      | [] \<Rightarrow> exec_from ic r (c # l) cs)"

text \<open>The matched text \<open>match[0]\<close>, the capture \<open>match[n]\<close> and the index of the match.\<close>

definition matched :: "rmatch_result \<Rightarrow> string" where
  "matched m = consumed (start m) (final m)"

definition capture :: "rmatch_result \<Rightarrow> nat \<Rightarrow> string option" where
  "capture m n = caps (final m) n"


text \<open>\<open>s.match(re)\<close> for a pattern without the global flag, and \<open>re.test(s)\<close>.\<close>

definition js_match :: "bool \<Rightarrow> regex \<Rightarrow> string \<Rightarrow> rmatch_result option" where
  "js_match ic r s = exec_from ic r [] s"

definition test :: "bool \<Rightarrow> regex \<Rightarrow> string \<Rightarrow> bool" where
  "test ic r s \<longleftrightarrow> js_match ic r s \<noteq> None"

text \<open>
  \<open>s.replace(re, rep)\<close> for a pattern with the global flag and a replacement without
  \<^verbatim>\<open>$\<close>: every match, found from left to right, is replaced; the search goes on at
  the end of the match, and one character further after an empty match.
\<close>

fun replace_from :: "bool \<Rightarrow> regex \<Rightarrow> string \<Rightarrow> string \<Rightarrow> string \<Rightarrow> string" where
  "replace_from ic r rep l [] =
     (case rmatch ic r (init l []) of y # _ \<Rightarrow> rep | [] \<Rightarrow> [])"
| "replace_from ic r rep l (c # cs) =
     (case rmatch ic r (init l (c # cs)) of
        [] \<Rightarrow> c # replace_from ic r rep (c # l) cs
      | y # _ \<Rightarrow>
          if length (right y) < Suc (length cs)
          then rep @ replace_from ic r rep (left y) (right y)
          else rep @ c # replace_from ic r rep (c # l) cs)"

definition replace_all :: "bool \<Rightarrow> regex \<Rightarrow> string \<Rightarrow> string \<Rightarrow> string" where
  "replace_all ic r rep s = replace_from ic r rep [] s"

text \<open>
  The matches of a pattern with the global flag, from left to right, as
  \<open>s.matchAll(re)\<close> gives them; \<open>s.match(re)\<close> gives their matched texts, or \<open>null\<close>
  when there is none.
\<close>

fun matches_from :: "bool \<Rightarrow> regex \<Rightarrow> string \<Rightarrow> string \<Rightarrow> rmatch_result list" where
  "matches_from ic r l [] =
     (case rmatch ic r (init l []) of
        y # _ \<Rightarrow> [\<lparr>start = init l [], final = y\<rparr>]
      | [] \<Rightarrow> [])"
| "matches_from ic r l (c # cs) =
     (case rmatch ic r (init l (c # cs)) of
        [] \<Rightarrow> matches_from ic r (c # l) cs
      | y # _ \<Rightarrow>
          \<lparr>start = init l (c # cs), final = y\<rparr> #
          (if length (right y) < Suc (length cs)
           then matches_from ic r (left y) (right y)
           else matches_from ic r (c # l) cs))"

definition matchAll :: "bool \<Rightarrow> regex \<Rightarrow> string \<Rightarrow> rmatch_result list" where
  "matchAll ic r s = matches_from ic r [] s"

definition match_global :: "bool \<Rightarrow> regex \<Rightarrow> string \<Rightarrow> string list option" where
  "match_global ic r s =
     (case matchAll ic r s of [] \<Rightarrow> None | ms \<Rightarrow> Some (map matched ms))"

section \<open>The validators (\<^verbatim>\<open>src/utils/validators.js\<close>)\<close>

definition SEQUENTIAL_PATTERNS :: "string list" where
  "SEQUENTIAL_PATTERNS =
     [''0123'', ''1234'', ''2345'', ''3456'', ''4567'', ''5678'', ''6789'',
      ''9876'', ''8765'', ''7654'', ''6543'', ''5432'', ''4321'', ''3210'',
      ''012345'', ''123456'', ''234567'', ''345678'', ''456789'',
      ''987654'', ''876543'', ''765432'', ''654321'', ''543210'']"

definition isSequential :: "string \<Rightarrow> bool" where
  "isSequential code \<longleftrightarrow> list_ex (\<lambda>pattern. str_includes code pattern) SEQUENTIAL_PATTERNS"

text \<open>\<^verbatim>\<open>/^(.)\1+$/\<close>\<close>

definition isRepetitive :: "string \<Rightarrow> bool" where
  "isRepetitive code \<longleftrightarrow>
     (if length code < 2 then False
      else test False (Seqs [Bol, Grp 1 Dot, Plus (Bref 1), Eol]) code)"

text \<open>The month \<^verbatim>\<open>(0[1-9]|1[0-2])\<close> and the day \<^verbatim>\<open>(0[1-9]|[12]\d|3[01])\<close>.\<close>

definition month :: regex where
  "month = Alts [Seq (Chr CHR ''0'') (Cls False [Range CHR ''1'' CHR ''9'']),
                 Seq (Chr CHR ''1'') (Cls False [Range CHR ''0'' CHR ''2''])]"

definition day :: regex where
  "day = Alts [Seq (Chr CHR ''0'') (Cls False [Range CHR ''1'' CHR ''9'']),
               Seq (Cls False [Single CHR ''1'', Single CHR ''2'']) (Cls False [ClsDigit]),
               Seq (Chr CHR ''3'') (Cls False [Single CHR ''0'', Single CHR ''1''])]"

definition century :: regex where
  "century = Alts [Str ''19'', Str ''20'']"

definition datePatterns :: "regex list" where
  "datePatterns =
     [Seqs [Bol, Grp 1 month, Grp 2 day, Grp 3 (Times 2 2 (Cls False [ClsDigit])), Eol],
      Seqs [Bol, Grp 1 day, Grp 2 month, Grp 3 (Times 2 2 (Cls False [ClsDigit])), Eol],
      Seqs [Bol, Grp 1 (Times 2 2 (Cls False [ClsDigit])), Grp 2 month, Grp 3 day, Eol],
      Seqs [Bol, Grp 1 month, Grp 2 day, Grp 3 century, Times 2 2 (Cls False [ClsDigit]), Eol],
      Seqs [Bol, Grp 1 day, Grp 2 month, Grp 3 century, Times 2 2 (Cls False [ClsDigit]), Eol],
      Seqs [Bol, Grp 1 century, Times 2 2 (Cls False [ClsDigit]), Grp 2 month, Grp 3 day, Eol]]"

definition isDatePattern :: "string \<Rightarrow> bool" where
  "isDatePattern code \<longleftrightarrow>
     (if length code \<noteq> 6 \<and> length code \<noteq> 8 then False
      else list_ex (\<lambda>pattern. test False pattern code) datePatterns)"

text \<open>
  \<open>parseInt(s, 10)\<close>: leading white space, an optional sign, then the longest run of
  digits; \<open>None\<close> is \<open>NaN\<close>.
\<close>

definition digit_value :: "char \<Rightarrow> int" where
  "digit_value c = int (of_char c) - 48"

definition parseInt :: "string \<Rightarrow> int option" where
  "parseInt s =
     (let t = dropWhile isSpace s;
          neg = (case t of [] \<Rightarrow> False | c # _ \<Rightarrow> c = CHR ''-'');
          u = (case t of [] \<Rightarrow> [] | c # cs \<Rightarrow> if c = CHR ''-'' \<or> c = CHR ''+'' then cs else t);
          ds = takeWhile isDigit u
      in if ds = [] then None
         else let n = foldl (\<lambda>a c. 10 * a + digit_value c) 0 ds
              in Some (if neg then - n else n))"

definition isYearPattern :: "string \<Rightarrow> bool" where
  "isYearPattern code \<longleftrightarrow>
     (if length code \<noteq> 4 then False
      else case parseInt code of None \<Rightarrow> False | Some num \<Rightarrow> num \<ge> 1900 \<and> num \<le> 2100)"

text \<open>\<^verbatim>\<open>/^0+$/\<close>\<close>

definition isAllZeros :: "string \<Rightarrow> bool" where
  "isAllZeros code \<longleftrightarrow> test False (Seqs [Bol, Plus (Chr CHR ''0''), Eol]) code"

text \<open>\<^verbatim>\<open>/^\d+(PX|EM|REM|PT|VH|VW|CH|EX|CM|MM|IN|PC)$/i\<close>\<close>

definition isCSSValue :: "string \<Rightarrow> bool" where
  "isCSSValue code \<longleftrightarrow>
     test True
       (Seqs [Bol, Plus (Cls False [ClsDigit]),
              Grp 1 (Alts [Str ''PX'', Str ''EM'', Str ''REM'', Str ''PT'', Str ''VH'', Str ''VW'',
                           Str ''CH'', Str ''EX'', Str ''CM'', Str ''MM'', Str ''IN'', Str ''PC'']),
              Eol]) code"

definition hex :: regex where
  "hex = Cls False [Range CHR ''0'' CHR ''9'', Range CHR ''A'' CHR ''F'']"

definition commonColors :: "string list" where
  "commonColors =
     [''000000'', ''FFFFFF'', ''333333'', ''666666'', ''999999'', ''CCCCCC'',
      ''FF0000'', ''00FF00'', ''0000FF'', ''FFFF00'', ''FF00FF'', ''00FFFF'',
      ''808080'', ''C0C0C0'', ''800000'', ''008000'', ''000080'', ''800080'']"

text \<open>
  \<^verbatim>\<open>/^[0-9A-F]+$/i\<close>, \<^verbatim>\<open>/^([0-9A-F]{2})\1\1$/i\<close> and
  \<^verbatim>\<open>/^([0-9A-F])([0-9A-F])\1\2\1\2$/i\<close>
\<close>

definition isLikelyColorCode :: "string \<Rightarrow> bool" where
  "isLikelyColorCode code \<longleftrightarrow>
     (if length code \<noteq> 6 then False
      else if \<not> test True (Seqs [Bol, Plus hex, Eol]) code then False
      else if test True (Seqs [Bol, Grp 1 (Times 2 2 hex), Bref 1, Bref 1, Eol]) code then True
      else if test True (Seqs [Bol, Grp 1 hex, Grp 2 hex, Bref 1, Bref 2, Bref 1, Bref 2, Eol]) code
        then True
      else if List.member commonColors (toUpperCase code) then True
      else False)"

text \<open>\<^verbatim>\<open>/[A-Za-z]/\<close> and \<^verbatim>\<open>/\d/\<close>\<close>

definition isValidAlphanumeric :: "string \<Rightarrow> bool" where
  "isValidAlphanumeric code \<longleftrightarrow>
     (let hasLetters = test False (Cls False [Range CHR ''A'' CHR ''Z'', Range CHR ''a'' CHR ''z'']) code;
          hasNumbers = test False (Cls False [ClsDigit]) code
      in if hasLetters \<and> \<not> hasNumbers then False else True)"

text \<open>
  \<^verbatim>\<open>code.replace(/[-\s]/g, '').toUpperCase()\<close>, the cleaned code of both entry
  points.
\<close>

definition clean_code :: "string \<Rightarrow> string" where
  "clean_code code = toUpperCase (replace_all False (Cls False [Single CHR ''-'', ClsSpace]) [] code)"

text \<open>\<^verbatim>\<open>/^[A-Z0-9]+$/\<close> and \<^verbatim>\<open>/^\d+$/\<close>\<close>

definition alnum_only :: regex where
  "alnum_only = Seqs [Bol, Plus (Cls False [Range CHR ''A'' CHR ''Z'', Range CHR ''0'' CHR ''9'']), Eol]"

definition digits_only :: regex where
  "digits_only = Seqs [Bol, Plus (Cls False [ClsDigit]), Eol]"

text \<open>
  The guard \<^verbatim>\<open>!code || typeof code !== 'string'\<close> lets only a non-empty string
  through; the other branch of the case distinction is behind it.
\<close>

definition isValidOTP :: "jsval \<Rightarrow> bool" where
  "isValidOTP code \<longleftrightarrow>
     (if \<not> truthy code \<or> typeof code \<noteq> ''string'' then False
      else case code of
        JString s \<Rightarrow>
          (let cleaned = clean_code s
           in if length cleaned < 4 \<or> length cleaned > 8 then False
              else if \<not> test False alnum_only cleaned then False
              else if isAllZeros cleaned then False
              else if isSequential cleaned then False
              else if isRepetitive cleaned then False
              else if test False digits_only cleaned \<and> isDatePattern cleaned then False
              else if test False digits_only cleaned \<and> isYearPattern cleaned then False
              else if \<not> isValidAlphanumeric cleaned then False
              else if isCSSValue cleaned then False
              else if isLikelyColorCode cleaned then False
              else True)
      | _ \<Rightarrow> False)"


section \<open>The extractor (\<^verbatim>\<open>src/services/otp-extractor.js\<close>)\<close>

definition VERIFICATION_KEYWORDS :: "string list" where
  "VERIFICATION_KEYWORDS =
     [''verification'', ''verify'', ''code'', ''pin'', ''otp'', ''passcode'',
      ''confirmation'', ''confirm'', ''security'', ''secure'', ''authorization'',
      ''authenticate'', ''authentication'', ''auth'', ''login'', ''log in'',
      ''sign in'', ''sign-in'', ''2fa'', ''two-factor'', ''two factor'',
      ''one-time'', ''one time'', ''onetime'', ''password'', ''token'',
      ''access code'', ''temporary code'', ''validation'']"

definition hasVerificationContext :: "string \<Rightarrow> bool" where
  "hasVerificationContext text \<longleftrightarrow>
     (let lowerText = toLowerCase text
      in list_ex (\<lambda>keyword. str_includes lowerText keyword) VERIFICATION_KEYWORDS)"

text \<open>
  \<^verbatim>\<open>/<\/?[^>]+(>|$)/g\<close>, \<^verbatim>\<open>/&nbsp;/gi\<close>, \<^verbatim>\<open>/&#\d+;/g\<close> and
  \<^verbatim>\<open>/\s+/g\<close>
\<close>

definition html_tag :: regex where
  "html_tag = Seqs [Chr CHR ''<'', Opt (Chr CHR ''/''), Plus (Cls True [Single CHR ''>'']),
                    Grp 1 (Alt (Chr CHR ''>'') Eol)]"

definition nbsp :: regex where
  "nbsp = Str ''&nbsp;''"

definition html_entity :: regex where
  "html_entity = Seqs [Str ''&#'', Plus (Cls False [ClsDigit]), Chr CHR '';'']"

definition whitespace :: regex where
  "whitespace = Plus Space"

definition cleanText :: "string \<Rightarrow> string" where
  "cleanText text =
     trim (replace_all False whitespace '' ''
       (replace_all False html_entity '' ''
         (replace_all True nbsp '' ''
           (replace_all False html_tag '' '' text))))"

text \<open>\<^verbatim>\<open>/[^a-zA-Z0-9]/g\<close> and \<^verbatim>\<open>/[^0-9]/g\<close>\<close>

definition processCode :: "string \<Rightarrow> string option" where
  "processCode codeString =
     (if codeString = [] then None
      else
        let cleaned = replace_all False
              (Cls True [Range CHR ''a'' CHR ''z'', Range CHR ''A'' CHR ''Z'', Range CHR ''0'' CHR ''9''])
              [] codeString;
            numericOnly = replace_all False (Cls True [Range CHR ''0'' CHR ''9'']) [] codeString
        in if length numericOnly \<ge> 4 \<and> length numericOnly \<le> 8 \<and> isValidOTP (JString numericOnly)
           then Some numericOnly
           else if length cleaned \<ge> 4 \<and> length cleaned \<le> 8 \<and> isValidOTP (JString cleaned)
           then Some (toUpperCase cleaned)
           else None)"

datatype confidence = High | Medium | Low

record otp =
  code :: string
  confidence :: confidence

record email_otp = otp +
  source :: string

text \<open>A pattern with its ignore-case flag.\<close>

type_synonym pattern = "bool \<times> regex"

text \<open>The pieces that the patterns share.\<close>

definition digits :: "nat \<Rightarrow> nat \<Rightarrow> regex" where
  "digits mn mx = Times mn mx Digit"

definition sep :: regex where
  "sep = Cls False [Single CHR ''-'', ClsSpace]"

definition dash_or_space :: regex where
  "dash_or_space = Cls False [Single CHR ''-'', Single CHR '' '']"

definition colon_or_equals :: regex where
  "colon_or_equals = Cls False [Single CHR '':'', Single CHR ''='']"

definition any_char :: regex where
  "any_char = Cls False [ClsSpace, ClsNotSpace]"

definition not_digit :: regex where
  "not_digit = Cls True [Range CHR ''0'' CHR ''9'']"

definition explicitPatterns :: "pattern list" where
  "explicitPatterns =
     [(True, Seqs [Alts [Str ''verification'', Str ''confirmation'', Str ''security'',
                         Seq (Str ''auth'') (Opt (Str ''entication'')),
                         Seqs [Str ''one'', Opt dash_or_space, Str ''time''],
                         Str ''2fa'',
                         Seqs [Str ''two'', Opt dash_or_space, Str ''factor''],
                         Str ''temporary''],
                   Star Space, Str ''code'', Star Space,
                   Alts [Str ''is'', Chr CHR '':'', Chr CHR ''='', Chr CHR '':''],
                   Star Space, Grp 1 (digits 4 8)]),
      (True, Seqs [Alts [Str ''your'', Str ''the''], Plus Space,
                   Opt (Alts [Seq (Str ''verification'') (Plus Space),
                              Seq (Str ''security'') (Plus Space),
                              Seqs [Str ''one'', Opt dash_or_space, Str ''time'', Plus Space]]),
                   Alts [Str ''code'', Str ''otp'', Str ''pin'', Str ''passcode''],
                   Star Space, Alts [Str ''is'', Chr CHR '':'', Chr CHR ''=''],
                   Star Space, Grp 1 (digits 4 8)]),
      (True, Seqs [WordB, Alts [Str ''code'', Str ''pin'', Str ''otp'', Str ''passcode''],
                   Star Space, colon_or_equals, Star Space, Grp 1 (digits 4 8), WordB]),
      (True, Seqs [Alts [Str ''use'', Str ''enter'', Str ''input'', Str ''type''], Plus Space,
                   Opt (Alts [Seq (Str ''this'') (Plus Space), Seq (Str ''the'') (Plus Space)]),
                   Alts [Str ''code'', Str ''otp'', Str ''pin''],
                   Star Space, Opt colon_or_equals, Star Space, Grp 1 (digits 4 8)]),
      (True, Seqs [WordB, Grp 1 (digits 4 8), Plus Space, Str ''is'', Plus Space, Str ''your'',
                   Plus Space,
                   Opt (Alts [Seq (Str ''verification'') (Plus Space),
                              Seq (Str ''security'') (Plus Space)]),
                   Alts [Str ''code'', Str ''otp'', Str ''pin'']]),
      (True, Seqs [Str ''here'', Plus Space, Str ''is'', Plus Space,
                   Opt (Seq (Str ''your'') (Plus Space)),
                   Alts [Str ''code'', Str ''otp'', Str ''pin''],
                   Star Space, Opt colon_or_equals, Star Space, Grp 1 (digits 4 8)]),
      (True, Seqs [Str ''code'', Plus Space, Str ''to'', Plus Space,
                   Alts [Str ''verify'', Str ''confirm'', Str ''complete'', Str ''access''],
                   Star Space, Opt colon_or_equals, Star Space, Grp 1 (digits 4 8)])]"

definition formattedPatterns :: "pattern list" where
  "formattedPatterns =
     [(True, Seqs [WordB, Alts [Str ''code'', Str ''pin'', Str ''otp'', Str ''passcode''],
                   Star Space, Opt colon_or_equals, Star Space,
                   Grp 1 (Seqs [digits 3 3, sep, digits 3 3]), WordB]),
      (True, Seqs [WordB, Alts [Str ''code'', Str ''pin'', Str ''otp'', Str ''passcode''],
                   Star Space, Opt colon_or_equals, Star Space,
                   Grp 1 (Seqs [digits 2 2, sep, digits 2 2, sep, digits 2 2]), WordB])]"

definition quote :: regex where
  "quote = Cls False [Single CHR 0x22, Single CHR 0x27]"

definition quotedPatterns :: "pattern list" where
  "quotedPatterns =
     [(False, Seqs [quote, Grp 1 (digits 4 8), quote]),
      (False, Seqs [Plus (Chr CHR ''*''), Grp 1 (digits 4 8), Plus (Chr CHR ''*'')]),
      (True, Seqs [Alts [Str ''code'', Str ''otp'', Str ''pin'', Str ''verification''],
                   Times 0 30 not_digit, Chr CHR ''['', Grp 1 (digits 4 8), Chr CHR '']''])]"

definition contextPatterns :: "pattern list" where
  "contextPatterns =
     [(True, Seqs [Opt (Seq (Str ''use'') (Plus Space)), Str ''this'', Plus Space, Str ''code'',
                   LazyTimes 1 300 any_char, WordB, Grp 1 (digits 4 8), WordB]),
      (True, Seqs [Str ''enter'', Plus Space, Opt (Seq (Str ''the'') (Plus Space)),
                   Opt (Seq (Str ''following'') (Plus Space)), Str ''code'',
                   LazyTimes 1 300 any_char, WordB, Grp 1 (digits 4 8), WordB]),
      (True, Seqs [WordB, Grp 1 (digits 4 8), WordB, LazyTimes 1 100 any_char,
                   Opt (Seq (Str ''will'') (Plus Space)), Str ''expire'']),
      (True, Seqs [Str ''expire'', LazyTimes 1 100 any_char, WordB, Grp 1 (digits 4 8), WordB]),
      (True, Seqs [Str ''sign'', Star Space, Alts [Str ''in'', Str ''up''],
                   LazyTimes 1 250 any_char, WordB, Grp 1 (digits 4 8), WordB]),
      (True, Seqs [Str ''log'', Star Space, Str ''in'',
                   LazyTimes 1 250 any_char, WordB, Grp 1 (digits 4 8), WordB]),
      (True, Seqs [Str ''verification'',
                   LazyTimes 1 200 any_char, WordB, Grp 1 (digits 4 8), WordB]),
      (True, Seqs [Str ''one'', Opt dash_or_space, Str ''time'',
                   LazyTimes 1 150 any_char, WordB, Grp 1 (digits 4 8), WordB]),
      (True, Seqs [WordB, Str ''code'', WordB, Times 1 50 not_digit, Grp 1 (digits 4 8), WordB])]"

definition standaloneFormatted :: "pattern list" where
  "standaloneFormatted =
     [(False, Seqs [WordB, Grp 1 (Seqs [digits 3 3, sep, digits 3 3]), WordB]),
      (False, Seqs [WordB, Grp 1 (Seqs [digits 2 2, sep, digits 2 2, sep, digits 2 2]), WordB]),
      (False, Seqs [WordB, Grp 1 (Seqs [digits 4 4, sep, digits 4 4]), WordB])]"

definition priorityPhrases :: "string list" where
  "priorityPhrases =
     [''this code'', ''your code'', ''the code'', ''enter code'', ''use code'',
      ''verification code'', ''confirmation code'', ''security code'',
      ''one-time code'', ''access code'', ''login code'', ''otp'']"

definition fallbackLengths :: "nat list" where
  "fallbackLengths = [6, 4, 5, 8]"

text \<open>
  The loop of tiers 1 to 5: the first pattern that matches with a non-empty first capture
  which \<open>processCode\<close> accepts gives the code.
\<close>

fun try_patterns :: "pattern list \<Rightarrow> string \<Rightarrow> string option" where
  "try_patterns [] clean = None"
| "try_patterns (pattern # patterns) clean =
     (case js_match (fst pattern) (snd pattern) clean of
        None \<Rightarrow> try_patterns patterns clean
      | Some m \<Rightarrow>
          (case capture m 1 of
             None \<Rightarrow> try_patterns patterns clean
           | Some c \<Rightarrow>
               if c = [] then try_patterns patterns clean
               else (case processCode c of
                       Some found \<Rightarrow> Some found
                     | None \<Rightarrow> try_patterns patterns clean)))"

text \<open>The inner loop of tier 6, over the matched texts.\<close>

fun try_candidates :: "string list \<Rightarrow> string option" where
  "try_candidates [] = None"
| "try_candidates (m # ms) =
     (case processCode m of Some found \<Rightarrow> Some found | None \<Rightarrow> try_candidates ms)"

text \<open>\<^verbatim>\<open>/\b([0-9]{4,8})\b/g\<close>\<close>

definition token :: regex where
  "token = Seqs [WordB, Grp 1 (digits 4 8), WordB]"

fun try_phrases :: "string list \<Rightarrow> string \<Rightarrow> string \<Rightarrow> string option" where
  "try_phrases [] clean lowerClean = None"
| "try_phrases (phrase # phrases) clean lowerClean =
     (case indexOf lowerClean phrase of
        None \<Rightarrow> try_phrases phrases clean lowerClean
      | Some index \<Rightarrow>
          (let searchWindow = substring clean index (min (length clean) (index + 400))
           in case match_global False token searchWindow of
                None \<Rightarrow> try_phrases phrases clean lowerClean
              | Some matches \<Rightarrow>
                  (case try_candidates matches of
                     Some found \<Rightarrow> Some found
                   | None \<Rightarrow> try_phrases phrases clean lowerClean)))"

text \<open>The inner loop of tier 7, over the matches and their first capture.\<close>

fun try_matches :: "rmatch_result list \<Rightarrow> string option" where
  "try_matches [] = None"
| "try_matches (m # ms) =
     (case capture m 1 of
        None \<Rightarrow> try_matches ms
      | Some c \<Rightarrow>
          if c = [] then try_matches ms
          else (case processCode c of Some found \<Rightarrow> Some found | None \<Rightarrow> try_matches ms))"

text \<open>\<^verbatim>\<open>new RegExp(`\\b([0-9]{${len}})\\b`, 'g')\<close>\<close>

fun try_lengths :: "nat list \<Rightarrow> string \<Rightarrow> string option" where
  "try_lengths [] clean = None"
| "try_lengths (len # lens) clean =
     (case try_matches (matchAll False (Seqs [WordB, Grp 1 (digits len len), WordB]) clean) of
        Some found \<Rightarrow> Some found
      | None \<Rightarrow> try_lengths lens clean)"

definition extractOTP :: "jsval \<Rightarrow> otp option" where
  "extractOTP text =
     (if \<not> truthy text \<or> typeof text \<noteq> ''string'' then None
      else case text of
        JString s \<Rightarrow>
          (let clean = cleanText s
           in if \<not> hasVerificationContext clean then None
              else case try_patterns explicitPatterns clean of
                Some c \<Rightarrow> Some \<lparr>code = c, confidence = High\<rparr>
              | None \<Rightarrow>
              (case try_patterns formattedPatterns clean of
                Some c \<Rightarrow> Some \<lparr>code = c, confidence = High\<rparr>
              | None \<Rightarrow>
              (case try_patterns quotedPatterns clean of
                Some c \<Rightarrow> Some \<lparr>code = c, confidence = High\<rparr>
              | None \<Rightarrow>
              (case try_patterns contextPatterns clean of
                Some c \<Rightarrow> Some \<lparr>code = c, confidence = Medium\<rparr>
              | None \<Rightarrow>
              (case try_patterns standaloneFormatted clean of
                Some c \<Rightarrow> Some \<lparr>code = c, confidence = Medium\<rparr>
              | None \<Rightarrow>
              (case try_phrases priorityPhrases clean (toLowerCase clean) of
                Some c \<Rightarrow> Some \<lparr>code = c, confidence = Medium\<rparr>
              | None \<Rightarrow>
              (case try_lengths fallbackLengths clean of
                Some c \<Rightarrow> Some \<lparr>code = c, confidence = Low\<rparr>
              | None \<Rightarrow> None)))))))
      | _ \<Rightarrow> None)"

text \<open>\<^verbatim>\<open>{ ...result, source: s }\<close>\<close>

definition with_source :: "otp \<Rightarrow> string \<Rightarrow> email_otp" where
  "with_source result s = \<lparr>code = code result, confidence = confidence result, source = s\<rparr>"

definition extractOTPFromEmail :: "jsval \<Rightarrow> jsval \<Rightarrow> email_otp option" where
  "extractOTPFromEmail subject body =
     (case (if truthy subject then extractOTP subject else None) of
        Some subjectResult \<Rightarrow> Some (with_source subjectResult ''subject'')
      | None \<Rightarrow>
          (case (if truthy body then extractOTP body else None) of
             Some bodyResult \<Rightarrow> Some (with_source bodyResult ''body'')
           | None \<Rightarrow> None))"

section \<open>The rule chain of the specification\<close>



section \<open>The windows of tier 4\<close>






section \<open>Auxiliary notions for the proofs about the matcher\<close>

text \<open>
  \<open>moved P x y\<close>: the state \<open>y\<close> is the state \<open>x\<close> moved forward over characters that
  satisfy \<open>P\<close>. \<open>eats_only ic P r\<close>: every character that an atom of \<open>r\<close> accepts
  satisfies \<open>P\<close>. \<open>captures_only ic P n r\<close>: the same for the atoms inside the capture
  groups with number \<open>n\<close>.
\<close>

definition moved :: "(char \<Rightarrow> bool) \<Rightarrow> mstate \<Rightarrow> mstate \<Rightarrow> bool" where
  "moved P x y \<longleftrightarrow> (\<exists>p. right x = p @ right y \<and> left y = rev p @ left x \<and> list_all P p)"

fun eats_only :: "bool \<Rightarrow> (char \<Rightarrow> bool) \<Rightarrow> regex \<Rightarrow> bool" where
  "eats_only ic P Eps = True"
| "eats_only ic P (Chr a) = (\<forall>c. ceq ic a c \<longrightarrow> P c)"
| "eats_only ic P Dot = (\<forall>c. \<not> isLineTerminator c \<longrightarrow> P c)"
| "eats_only ic P (Cls neg items) = (\<forall>c. in_class ic items c \<noteq> neg \<longrightarrow> P c)"
| "eats_only ic P (Seq r1 r2) = (eats_only ic P r1 \<and> eats_only ic P r2)"
| "eats_only ic P (Alt r1 r2) = (eats_only ic P r1 \<and> eats_only ic P r2)"
| "eats_only ic P (Rep g mn mx r) = eats_only ic P r"
| "eats_only ic P (Grp n r) = eats_only ic P r"
| "eats_only ic P (Bref n) = (\<forall>c. P c)"
| "eats_only ic P Bol = True"
| "eats_only ic P Eol = True"
| "eats_only ic P WordB = True"

fun captures_only :: "bool \<Rightarrow> (char \<Rightarrow> bool) \<Rightarrow> nat \<Rightarrow> regex \<Rightarrow> bool" where
  "captures_only ic P n (Seq r1 r2) = (captures_only ic P n r1 \<and> captures_only ic P n r2)"
| "captures_only ic P n (Alt r1 r2) = (captures_only ic P n r1 \<and> captures_only ic P n r2)"
| "captures_only ic P n (Rep g mn mx r) = captures_only ic P n r"
| "captures_only ic P n (Grp m r) = ((m = n \<longrightarrow> eats_only ic P r) \<and> captures_only ic P n r)"
| "captures_only ic P n r = True"

text \<open>
  \<open>groupless r\<close>: the pattern has no capture group. \<open>single r\<close>: the pattern is one
  character or character class.
\<close>

fun groupless :: "regex \<Rightarrow> bool" where
  "groupless (Seq r1 r2) = (groupless r1 \<and> groupless r2)"
| "groupless (Alt r1 r2) = (groupless r1 \<and> groupless r2)"
| "groupless (Rep g mn mx r) = groupless r"
| "groupless (Grp n r) = False"
| "groupless r = True"




section \<open>Auxiliary notions for the proofs about \<open>cleanText\<close>\<close>


definition advance :: "string \<Rightarrow> mstate \<Rightarrow> mstate" where
  "advance p x = x\<lparr>left := rev p @ left x, right := drop (length p) (right x)\<rparr>"

text \<open>
  The shape of a cleaned text. \<open>tagfree s\<close>: an opening angle bracket of \<open>s\<close> is its last
  character or stands before a closing one, so that no tag starts in \<open>s\<close>.
  \<open>nbsp_word\<close> and \<open>entity_word\<close>: the strings that \<^verbatim>\<open>/&nbsp;/i\<close> and \<^verbatim>\<open>/&#\d+;/\<close> match.
  \<open>wsnorm s\<close>: every white-space character of \<open>s\<close> is a space, and no two of them are
  neighbours. \<open>cleaned s\<close>: all of these, and \<open>s\<close> is trimmed.
\<close>

fun tagfree :: "string \<Rightarrow> bool" where
  "tagfree (a # b # s) = ((a \<noteq> CHR ''<'' \<or> b = CHR ''>'') \<and> tagfree (b # s))"
| "tagfree s = True"

definition nbsp_word :: "string \<Rightarrow> bool" where
  "nbsp_word w \<longleftrightarrow> list_all2 (ceq True) ''&nbsp;'' w"

definition entity_word :: "string \<Rightarrow> bool" where
  "entity_word w \<longleftrightarrow> (\<exists>ds. w = ''&#'' @ ds @ '';'' \<and> ds \<noteq> [] \<and> list_all isDigit ds)"

fun wsnorm :: "string \<Rightarrow> bool" where
  "wsnorm [] = True"
| "wsnorm (a # s) = ((\<not> isSpace a \<or> (a = CHR '' '' \<and> (s = [] \<or> \<not> isSpace (hd s)))) \<and> wsnorm s)"

definition cleaned :: "string \<Rightarrow> bool" where
  "cleaned s \<longleftrightarrow> tagfree s \<and> (\<forall>w. sublist w s \<longrightarrow> \<not> nbsp_word w \<and> \<not> entity_word w) \<and>
     wsnorm s \<and> trim s = s"

section \<open>Characters and classes\<close>

lemma isDigit_iff: "isDigit c \<longleftrightarrow> 48 \<le> (of_char c :: nat) \<and> (of_char c :: nat) \<le> 57"
  by (simp add: isDigit_def in_range_def less_eq_char_def)

lemma isUpper_iff: "isUpper c \<longleftrightarrow> 65 \<le> (of_char c :: nat) \<and> (of_char c :: nat) \<le> 90"
  by (simp add: isUpper_def in_range_def less_eq_char_def)

lemma isLower_iff: "isLower c \<longleftrightarrow> 97 \<le> (of_char c :: nat) \<and> (of_char c :: nat) \<le> 122"
  by (simp add: isLower_def in_range_def less_eq_char_def)

lemma char_eq_iff_nat: "c = d \<longleftrightarrow> (of_char c :: nat) = of_char d"
  by (metis char_of_char)

text \<open>
  For evaluation: taking 32 from the code of a lower-case letter clears bit 5, adding 32
  to the code of an upper-case letter sets it.
\<close>

lemma toUpperChar_code [code]:
  "toUpperChar (Char b0 b1 b2 b3 b4 b5 b6 b7) =
     (if isLower (Char b0 b1 b2 b3 b4 b5 b6 b7) then Char b0 b1 b2 b3 b4 False b6 b7
      else Char b0 b1 b2 b3 b4 b5 b6 b7)"
proof (cases "isLower (Char b0 b1 b2 b3 b4 b5 b6 b7)")
  case False
  then show ?thesis by (simp add: toUpperChar_def)
next
  case True
  then have b5: "b5"
    by (cases b5; cases b6; cases b7) (auto simp: isLower_iff of_bool_def split: if_splits)
  have "(of_char (char_of (of_char (Char b0 b1 b2 b3 b4 b5 b6 b7) - (32::nat))) :: nat)
        = of_char (Char b0 b1 b2 b3 b4 False b6 b7)"
    using True b5 by (simp add: isLower_iff)
  then show ?thesis using True by (simp add: toUpperChar_def char_eq_iff_nat[of "char_of _"])
qed

lemma toLowerChar_code [code]:
  "toLowerChar (Char b0 b1 b2 b3 b4 b5 b6 b7) =
     (if isUpper (Char b0 b1 b2 b3 b4 b5 b6 b7) then Char b0 b1 b2 b3 b4 True b6 b7
      else Char b0 b1 b2 b3 b4 b5 b6 b7)"
proof (cases "isUpper (Char b0 b1 b2 b3 b4 b5 b6 b7)")
  case False
  then show ?thesis by (simp add: toLowerChar_def)
next
  case True
  then have b5: "\<not> b5"
    by (cases b5; cases b6; cases b7) (auto simp: isUpper_iff of_bool_def split: if_splits)
  have "(of_char (char_of (of_char (Char b0 b1 b2 b3 b4 b5 b6 b7) + (32::nat))) :: nat)
        = of_char (Char b0 b1 b2 b3 b4 True b6 b7)"
    using True b5 by (simp add: isUpper_iff)
  then show ?thesis using True by (simp add: toLowerChar_def char_eq_iff_nat[of "char_of _"])
qed

lemma isSpace_iff: "isSpace c \<longleftrightarrow> (of_char c :: nat) \<in> {9, 10, 11, 12, 13, 32}"
  by (simp add: isSpace_def char_eq_iff_nat[of c])

lemma of_char_toUpperChar:
  "(of_char (toUpperChar c) :: nat) = (if isLower c then of_char c - 32 else of_char c)"
  by (auto simp: toUpperChar_def isLower_iff)

lemma of_char_toLowerChar:
  "(of_char (toLowerChar c) :: nat) = (if isUpper c then of_char c + 32 else of_char c)"
  by (auto simp: toLowerChar_def isUpper_iff)

lemmas char_arith =
  isDigit_iff isUpper_iff isLower_iff isSpace_iff of_char_toUpperChar of_char_toLowerChar

lemma toUpperChar_idem: "toUpperChar (toUpperChar c) = toUpperChar c"
  by (auto simp: char_eq_iff_nat[of "toUpperChar _"] char_arith)

lemma toUpperCase_idem: "toUpperCase (toUpperCase s) = toUpperCase s"
  by (simp add: toUpperCase_def toUpperChar_idem)

lemma toUpperChar_digit: "isDigit c \<Longrightarrow> toUpperChar c = c"
  by (auto simp: char_eq_iff_nat[of "toUpperChar _"] char_arith)

lemma isSpace_toUpperChar: "isSpace (toUpperChar c) \<longleftrightarrow> isSpace c"
  by (auto simp: char_arith)

lemma dash_toUpperChar: "toUpperChar c = CHR ''-'' \<longleftrightarrow> c = CHR ''-''"
  by (auto simp: char_eq_iff_nat[of _ "CHR ''-''"] char_arith)

lemma isAlnum_toUpperChar: "isAlnum c \<Longrightarrow> isUpper (toUpperChar c) \<or> isDigit (toUpperChar c)"
  by (auto simp: isAlnum_def char_arith)

text \<open>The classes of the patterns, as predicates.\<close>

lemma in_class_digit [simp]: "in_class ic [Range CHR ''0'' CHR ''9''] c \<longleftrightarrow> isDigit c"
  by (auto simp: in_class_def in_range_def less_eq_char_def char_arith)

lemma in_class_d [simp]: "in_class ic [ClsDigit] c \<longleftrightarrow> isDigit c"
  by (auto simp: in_class_def char_arith)

lemma in_class_space [simp]: "in_class ic [ClsSpace] c \<longleftrightarrow> isSpace c"
  by (auto simp: in_class_def char_arith)

lemma in_class_sep [simp]:
  "in_class ic [Single CHR ''-'', ClsSpace] c \<longleftrightarrow> c = CHR ''-'' \<or> isSpace c"
  by (auto simp: in_class_def isSpace_toUpperChar dash_toUpperChar char_eq_iff_nat[of _ "CHR ''-''"] char_arith)

lemma in_class_alnum [simp]:
  "in_class False [Range CHR ''a'' CHR ''z'', Range CHR ''A'' CHR ''Z'', Range CHR ''0'' CHR ''9''] c
     \<longleftrightarrow> isAlnum c"
  by (auto simp: in_class_def in_range_def less_eq_char_def isAlnum_def char_arith)

lemma in_class_any [simp]: "in_class ic [ClsSpace, ClsNotSpace] c"
  by (auto simp: in_class_def)

section \<open>Replacing single characters\<close>

text \<open>
  With a pattern that is one character class, the global replacement by the empty
  string keeps the characters outside the class.
\<close>

lemma replace_from_class:
  "replace_from ic (Cls neg items) [] l s = filter (\<lambda>c. in_class ic items c = neg) s"
  by (induction s arbitrary: l) (simp_all add: step_def init_def)

lemma replace_all_class:
  "replace_all ic (Cls neg items) [] s = filter (\<lambda>c. in_class ic items c = neg) s"
  by (simp add: replace_all_def replace_from_class)

lemma clean_code_filter:
  "clean_code s = toUpperCase (filter (\<lambda>c. \<not> (c = CHR ''-'' \<or> isSpace c)) s)"
  by (simp add: clean_code_def replace_all_class)

lemma numericOnly_filter:
  "replace_all False (Cls True [Range CHR ''0'' CHR ''9'']) [] s = filter isDigit s"
  by (simp add: replace_all_class)

lemma cleaned_filter:
  "replace_all False
     (Cls True [Range CHR ''a'' CHR ''z'', Range CHR ''A'' CHR ''Z'', Range CHR ''0'' CHR ''9'']) [] s
   = filter isAlnum s"
  by (simp add: replace_all_class)

lemma clean_code_toUpperCase: "clean_code (toUpperCase s) = clean_code s"
  by (simp add: clean_code_filter toUpperCase_def filter_map o_def
      isSpace_toUpperChar dash_toUpperChar toUpperChar_idem)

lemma isValidOTP_toUpperCase: "isValidOTP (JString (toUpperCase s)) = isValidOTP (JString s)"
  by (simp add: isValidOTP_def clean_code_toUpperCase) (simp add: toUpperCase_def)

section \<open>Properties of the matcher\<close>

lemma moved_refl: "moved P x x"
  by (simp add: moved_def)

lemma moved_trans:
  assumes "moved P x y" "moved P y z"
  shows "moved P x z"
proof -
  from assms obtain p q where
    p: "right x = p @ right y" "left y = rev p @ left x" "list_all P p" and
    q: "right y = q @ right z" "left z = rev q @ left y" "list_all P q"
    unfolding moved_def by blast
  then have "right x = (p @ q) @ right z \<and> left z = rev (p @ q) @ left x \<and> list_all P (p @ q)"
    by simp
  then show ?thesis unfolding moved_def by blast
qed


lemma moved_consumed:
  assumes "moved P x y"
  shows "right x = consumed x y @ right y" "list_all P (consumed x y)"
    "left y = rev (consumed x y) @ left x"
proof -
  from assms obtain p where
    p: "right x = p @ right y" "left y = rev p @ left x" "list_all P p"
    unfolding moved_def by blast
  have "consumed x y = p"
    by (simp add: consumed_def p(1))
  with p show "right x = consumed x y @ right y" "list_all P (consumed x y)"
    "left y = rev (consumed x y) @ left x"
    by simp_all
qed

lemma moved_caps: "moved P x y \<Longrightarrow> moved P x (y\<lparr>caps := f\<rparr>)"
  by (simp add: moved_def)

lemma step_iff:
  "y \<in> set (step Q x) \<longleftrightarrow>
     (\<exists>c cs. right x = c # cs \<and> Q c \<and> y = x\<lparr>left := c # left x, right := cs\<rparr>)"
proof (cases "right x")
  case Nil
  then show ?thesis by (simp add: step_def)
next
  case (Cons c cs)
  then show ?thesis by (cases "Q c") (simp_all add: step_def)
qed

lemma assertion_iff: "y \<in> set (assertion Q x) \<longleftrightarrow> Q x \<and> y = x"
  by (cases "Q x") (auto simp: assertion_def)

lemma step_moved:
  assumes "y \<in> set (step Q x)" "\<And>c. Q c \<Longrightarrow> P c"
  shows "moved P x y" "caps y = caps x"
proof -
  from assms(1) obtain c cs where
    c: "right x = c # cs" "Q c" "y = x\<lparr>left := c # left x, right := cs\<rparr>"
    unfolding step_iff by blast
  then have "right x = [c] @ right y \<and> left y = rev [c] @ left x \<and> list_all P [c]"
    using assms(2) by simp
  then show "moved P x y" unfolding moved_def by blast
  show "caps y = caps x" using c by simp
qed

lemma repeat_Suc_iff:
  "y \<in> set (repeat g mn (Suc k) m x) \<longleftrightarrow>
     (mn = 0 \<and> y = x) \<or>
     (\<exists>z \<in> set (m x). \<not> (mn = 0 \<and> length (right z) = length (right x))
        \<and> y \<in> set (repeat g (mn - 1) k m z))"
proof -
  define f where "f = (\<lambda>z. if mn = 0 \<and> length (right z) = length (right x) then []
                 else repeat g (mn - 1) k m z)"
  define iter where "iter = concat (map f (m x))"
  have f: "y \<in> set (f z) \<longleftrightarrow>
      \<not> (mn = 0 \<and> length (right z) = length (right x)) \<and> y \<in> set (repeat g (mn - 1) k m z)" for z
  proof (cases "mn = 0 \<and> length (right z) = length (right x)")
    case True
    then have "f z = []" unfolding f_def by (simp only: if_P)
    then show ?thesis using True by simp
  next
    case False
    then have "f z = repeat g (mn - 1) k m z" unfolding f_def by (simp only: if_False)
    then show ?thesis using False by (simp only: simp_thms)
  qed
  have iter: "y \<in> set iter \<longleftrightarrow>
     (\<exists>z \<in> set (m x). \<not> (mn = 0 \<and> length (right z) = length (right x))
        \<and> y \<in> set (repeat g (mn - 1) k m z))"
    unfolding iter_def set_concat set_map UN_iff bex_simps f ..
  have eq: "repeat g mn (Suc k) m x = (if mn \<noteq> 0 then iter else if g then iter @ [x] else x # iter)"
    by (simp add: Let_def iter_def f_def)
  have "y \<in> set (repeat g mn (Suc k) m x) \<longleftrightarrow> (mn = 0 \<and> y = x) \<or> y \<in> set iter"
    unfolding eq by (cases "mn = 0"; cases g) auto
  then show ?thesis unfolding iter .
qed

text \<open>A relation that every iteration keeps is kept by the quantifier.\<close>

lemma repeat_rel:
  assumes refl: "\<And>x. R x x"
    and trans: "\<And>x y z. R x y \<Longrightarrow> R y z \<Longrightarrow> R x z"
    and iter: "\<And>x y. y \<in> set (m x) \<Longrightarrow> R x y"
  shows "y \<in> set (repeat g mn k m x) \<Longrightarrow> R x y"
proof (induction k arbitrary: mn x)
  case 0
  then show ?case by (simp add: refl)
next
  case (Suc k)
  from Suc.prems consider "y = x"
    | z where "z \<in> set (m x)" "y \<in> set (repeat g (mn - 1) k m z)"
    unfolding repeat_Suc_iff by blast
  then show ?case
  proof cases
    case 1
    then show ?thesis by (simp add: refl)
  next
    case 2
    then show ?thesis using Suc.IH iter trans by blast
  qed
qed

lemma match_string_moved:
  assumes "y \<in> set (match_string ic s x)" "\<And>c. P c"
  shows "moved P x y \<and> caps y = caps x"
  using assms(1)
proof (induction s arbitrary: x)
  case Nil
  then show ?case by (simp add: moved_refl)
next
  case (Cons a s)
  from Cons.prems obtain z where z: "z \<in> set (step (ceq ic a) x)" "y \<in> set (match_string ic s z)"
    by auto
  from z(1) have "moved P x z" "caps z = caps x"
    using assms(2) by (auto dest: step_moved)
  with Cons.IH [OF z(2)] show ?case
    using moved_trans by auto
qed

lemma rmatch_moved:
  "eats_only ic P r \<Longrightarrow> y \<in> set (rmatch ic r x) \<Longrightarrow> moved P x y"
proof (induction r arbitrary: x y)
  case Eps
  then show ?case by (simp add: moved_refl)
next
  case (Chr a)
  then show ?case by (auto intro: step_moved(1))
next
  case Dot
  then show ?case by (auto intro: step_moved(1))
next
  case (Cls neg items)
  then show ?case by (auto intro: step_moved(1))
next
  case (Seq r1 r2)
  from Seq.prems obtain z where "z \<in> set (rmatch ic r1 x)" "y \<in> set (rmatch ic r2 z)"
    by auto
  then show ?case using Seq moved_trans by (metis eats_only.simps(5))
next
  case (Alt r1 r2)
  then show ?case by auto
next
  case (Rep g mn mx r)
  have "y \<in> set (repeat g mn (rep_bound mn mx x) (rmatch ic r) x)"
    using Rep.prems by simp
  then show ?case
  proof (rule repeat_rel [where R = "moved P", rotated 3])
    show "\<And>x. moved P x x" by (rule moved_refl)
    show "\<And>x y z. moved P x y \<Longrightarrow> moved P y z \<Longrightarrow> moved P x z" by (rule moved_trans)
    show "\<And>x y. y \<in> set (rmatch ic r x) \<Longrightarrow> moved P x y" using Rep by simp
  qed
next
  case (Grp n r)
  then show ?case by (auto simp: moved_caps)
next
  case (Bref n)
  show ?case
  proof (cases "caps x n")
    case None
    with Bref show ?thesis by (simp add: moved_refl)
  next
    case (Some s)
    from Bref.prems have P: "\<And>c. P c" and y: "y \<in> set (match_string ic s x)"
      using Some by simp_all
    show ?thesis using match_string_moved [where P = P, OF y P] by blast
  qed
next
  case Bol
  then show ?case by (simp add: assertion_iff moved_refl)
next
  case Eol
  then show ?case by (simp add: assertion_iff moved_refl)
next
  case WordB
  then show ?case by (simp add: assertion_iff moved_refl)
qed




text \<open>The search for a match.\<close>

lemma exec_from_final:
  assumes "exec_from ic r l s = Some m"
  shows "final m \<in> set (rmatch ic r (start m))" "caps (start m) = (\<lambda>_. None)"
    "\<exists>p. s = p @ right (start m) \<and> left (start m) = rev p @ l"
  using assms
proof (induction s arbitrary: l)
  case Nil
  {
    case 1
    then show ?case by (auto simp: init_def split: list.splits)
  next
    case 2
    then show ?case by (auto simp: init_def split: list.splits)
  next
    case 3
    then show ?case by (auto simp: init_def split: list.splits)
  }
next
  case (Cons c cs)
  {
    case 1
    show ?case
    proof (cases "rmatch ic r (init l (c # cs))")
      case Nil
      with 1 Cons.IH(1) show ?thesis by simp
    next
      case (Cons y ys)
      with 1 show ?thesis by auto
    qed
  next
    case 2
    show ?case
    proof (cases "rmatch ic r (init l (c # cs))")
      case Nil
      with 2 Cons.IH(2) show ?thesis by simp
    next
      case (Cons y ys)
      with 2 show ?thesis by (auto simp: init_def)
    qed
  next
    case 3
    show ?case
    proof (cases "rmatch ic r (init l (c # cs))")
      case Nil
      with 3 have "exec_from ic r (c # l) cs = Some m" by simp
      from Cons.IH(3) [OF this] obtain p where
        "cs = p @ right (start m)" "left (start m) = rev p @ c # l" by blast
      then have "c # cs = (c # p) @ right (start m) \<and> left (start m) = rev (c # p) @ l"
        by simp
      then show ?thesis by blast
    next
      case (Cons y ys)
      with 3 have "start m = init l (c # cs)" by auto
      then have "c # cs = [] @ right (start m) \<and> left (start m) = rev [] @ l"
        by (simp add: init_def)
      then show ?thesis by blast
    qed
  }
qed


section \<open>The Candidate Resolver\<close>

lemma processCode_eq:
  "processCode c =
     (if 4 \<le> length (filter isDigit c) \<and> length (filter isDigit c) \<le> 8
         \<and> isValidOTP (JString (filter isDigit c))
      then Some (filter isDigit c)
      else if 4 \<le> length (filter isAlnum c) \<and> length (filter isAlnum c) \<le> 8
         \<and> isValidOTP (JString (filter isAlnum c))
      then Some (toUpperCase (filter isAlnum c))
      else None)"
  by (cases "c = []") (simp_all add: processCode_def numericOnly_filter cleaned_filter Let_def)

text \<open>
  Claim C1. For every candidate string, \<open>processCode\<close> returns the digit-only form of the
  candidate when that form has length 4 to 8 and passes \<open>isValidOTP\<close>; otherwise the
  upper-cased alphanumeric-only form when that form has length 4 to 8 and passes
  \<open>isValidOTP\<close>; otherwise nothing. Every result has length 4 to 8, consists of
  characters \<^verbatim>\<open>[A-Z0-9]\<close> only and satisfies \<open>isValidOTP\<close>.
\<close>

theorem processCode_resolves:
  "processCode c =
     (if 4 \<le> length (filter isDigit c) \<and> length (filter isDigit c) \<le> 8
         \<and> isValidOTP (JString (filter isDigit c))
      then Some (filter isDigit c)
      else if 4 \<le> length (filter isAlnum c) \<and> length (filter isAlnum c) \<le> 8
         \<and> isValidOTP (JString (filter isAlnum c))
      then Some (toUpperCase (filter isAlnum c))
      else None)
   \<and> (\<forall>r. processCode c = Some r \<longrightarrow>
          4 \<le> length r \<and> length r \<le> 8 \<and> list_all (\<lambda>ch. isUpper ch \<or> isDigit ch) r
          \<and> isValidOTP (JString r))"
proof (rule conjI, rule processCode_eq, intro allI impI)
  fix r assume r: "processCode c = Some r"
  consider (num) "r = filter isDigit c" "4 \<le> length r" "length r \<le> 8" "isValidOTP (JString r)"
    | (alnum) "r = toUpperCase (filter isAlnum c)" "4 \<le> length (filter isAlnum c)"
        "length (filter isAlnum c) \<le> 8" "isValidOTP (JString (filter isAlnum c))"
    using r unfolding processCode_eq by (auto split: if_splits)
  then show "4 \<le> length r \<and> length r \<le> 8 \<and> list_all (\<lambda>ch. isUpper ch \<or> isDigit ch) r
          \<and> isValidOTP (JString r)"
  proof cases
    case num
    then show ?thesis by (auto simp: list_all_iff)
  next
    case alnum
    have "list_all (\<lambda>ch. isUpper ch \<or> isDigit ch) r"
      unfolding alnum(1) toUpperCase_def list_all_iff using isAlnum_toUpperChar by auto
    moreover have "length r = length (filter isAlnum c)"
      by (simp add: alnum(1) toUpperCase_def)
    ultimately show ?thesis
      using alnum by (simp add: isValidOTP_toUpperCase)
  qed
qed

theorem processCode_resolves_witness:
  "processCode ''a1-b2 c3'' = Some ''A1B2C3'' \<and> length ''A1B2C3'' = 6
   \<and> list_all (\<lambda>ch. isUpper ch \<or> isDigit ch) ''A1B2C3'' \<and> isValidOTP (JString ''A1B2C3'')"
proof -
  have "processCode ''a1-b2 c3'' = Some ''A1B2C3''"
    by code_simp
  with processCode_resolves [of "''a1-b2 c3''"] show ?thesis
    by simp
qed

section \<open>The validator\<close>
















section \<open>The gate and the Source Selector\<close>

lemma extractOTP_falsy: "\<not> truthy v \<Longrightarrow> extractOTP v = None"
  by (simp add: extractOTP_def)

lemma extractOTP_non_string: "(\<forall>s. v \<noteq> JString s) \<Longrightarrow> extractOTP v = None"
  by (cases v) (simp_all add: extractOTP_def)

lemma isValidOTP_non_string: "(\<forall>s. v \<noteq> JString s) \<Longrightarrow> \<not> isValidOTP v"
  by (cases v) (simp_all add: isValidOTP_def)

lemma extractOTPFromEmail_eq:
  "extractOTPFromEmail subject body =
     (case extractOTP subject of
        Some r \<Rightarrow> Some (with_source r ''subject'')
      | None \<Rightarrow> (case extractOTP body of
                   Some r \<Rightarrow> Some (with_source r ''body'')
                 | None \<Rightarrow> None))"
  by (cases "truthy subject"; cases "truthy body")
     (simp_all add: extractOTPFromEmail_def extractOTP_falsy split: option.splits)


text \<open>
  Claim C5. For the subject \<open>Newsletter\<close> and the body
  \<open>Thanks for signing in. Your verification code: 58-19-02\<close>, \<open>extractOTPFromEmail\<close>
  returns the code \<open>581902\<close> with confidence \<open>high\<close> and source \<open>body\<close>.
\<close>

theorem scenario_B:
  "extractOTPFromEmail (JString ''Newsletter'')
     (JString ''Thanks for signing in. Your verification code: 58-19-02'')
   = Some \<lparr>code = ''581902'', confidence = High, source = ''body''\<rparr>"
  by code_simp





text \<open>
  Claim C9. Absent and non-string input gives no match and no error: \<open>extractOTP\<close>
  returns \<open>null\<close> and \<open>isValidOTP\<close> returns \<open>false\<close> on every value that is not a string,
  and on the empty string; \<open>extractOTPFromEmail\<close> returns \<open>null\<close> when neither input is a
  string. Every string operation of the three functions is behind the guard, so no
  input is left on which one of them could throw.
\<close>

theorem absent_input_no_match:
  "((\<forall>s. v \<noteq> JString s) \<longrightarrow> extractOTP v = None \<and> \<not> isValidOTP v)
   \<and> ((\<forall>s. subject \<noteq> JString s) \<and> (\<forall>s. body \<noteq> JString s) \<longrightarrow>
         extractOTPFromEmail subject body = None)
   \<and> extractOTP JNull = None \<and> extractOTP JUndefined = None \<and> extractOTP (JString []) = None
   \<and> \<not> isValidOTP JNull \<and> \<not> isValidOTP JUndefined \<and> \<not> isValidOTP (JString [])
   \<and> extractOTPFromEmail JUndefined JUndefined = None
   \<and> extractOTPFromEmail JNull JNull = None
   \<and> extractOTPFromEmail (JString []) (JString []) = None"
  by (simp add: extractOTP_non_string isValidOTP_non_string extractOTPFromEmail_eq)
     (simp add: extractOTP_def isValidOTP_def)

theorem absent_input_no_match_witness:
  "extractOTP (JNumber 123456) = None \<and> \<not> isValidOTP (JNumber 123456)
   \<and> extractOTPFromEmail JObject (JBoolean True) = None"
  using absent_input_no_match [of "JNumber 123456" JObject "JBoolean True"] by simp

section \<open>What the pipeline can return\<close>




lemma eats_digit [simp]: "eats_only ic P Digit \<longleftrightarrow> (\<forall>c. isDigit c \<longrightarrow> P c)"
  by simp

lemma eats_sep [simp]: "eats_only ic P sep \<longleftrightarrow> (\<forall>c. c = CHR ''-'' \<or> isSpace c \<longrightarrow> P c)"
  by (simp add: sep_def)

lemma eats_digits [simp]: "eats_only ic P (digits mn mx) \<longleftrightarrow> (\<forall>c. isDigit c \<longrightarrow> P c)"
  by (simp add: digits_def Times_def)

lemma captures_Seqs [simp]:
  "captures_only ic P n (Seqs rs) \<longleftrightarrow> (\<forall>r \<in> set rs. captures_only ic P n r)"
  by (induction rs) (simp_all add: Seqs_def)

lemma eats_Seqs [simp]:
  "eats_only ic P (Seqs rs) \<longleftrightarrow> (\<forall>r \<in> set rs. eats_only ic P r)"
  by (induction rs) (simp_all add: Seqs_def)

lemma captures_Str [simp]: "captures_only ic P n (Str s)"
  by (induction s) (simp_all add: Str_def)


lemma captures_quant [simp]:
  "captures_only ic P n (Opt r) = captures_only ic P n r"
  "captures_only ic P n (Star r) = captures_only ic P n r"
  "captures_only ic P n (Plus r) = captures_only ic P n r"
  "captures_only ic P n (Times a b r) = captures_only ic P n r"
  "captures_only ic P n (LazyTimes a b r) = captures_only ic P n r"
  by (simp_all add: Opt_def Star_def Plus_def Times_def LazyTimes_def)

lemma captures_atoms [simp]:
  "captures_only ic P n sep" "captures_only ic P n dash_or_space"
  "captures_only ic P n colon_or_equals" "captures_only ic P n any_char"
  "captures_only ic P n not_digit" "captures_only ic P n quote"
  "captures_only ic P n (digits a b)"
  by (simp_all add: sep_def dash_or_space_def colon_or_equals_def any_char_def not_digit_def
      quote_def digits_def Times_def)



lemma js_match_moved:
  assumes "js_match ic r s = Some m" "eats_only ic P r"
  shows "list_all P (matched m)"
proof -
  from assms(1) have "final m \<in> set (rmatch ic r (start m))"
    unfolding js_match_def by (rule exec_from_final(1))
  with assms(2) have "moved P (start m) (final m)" by (rule rmatch_moved)
  then show ?thesis unfolding matched_def by (rule moved_consumed(2))
qed















section \<open>Tier 4: the phrase, the gap and the token\<close>







lemma groupless_Seqs [simp]: "groupless (Seqs rs) \<longleftrightarrow> (\<forall>r \<in> set rs. groupless r)"
  by (induction rs) (simp_all add: Seqs_def)

lemma groupless_Str [simp]: "groupless (Str s)"
  by (induction s) (simp_all add: Str_def)

lemma groupless_Alts: "rs \<noteq> [] \<Longrightarrow> groupless (Alts rs) \<longleftrightarrow> (\<forall>r \<in> set rs. groupless r)"
proof (induction rs)
  case Nil
  then show ?case by simp
next
  case (Cons a rs)
  then show ?case by (cases rs) (simp_all add: Alts_def)
qed

lemma groupless_quant [simp]:
  "groupless (Opt r) = groupless r" "groupless (Star r) = groupless r"
  "groupless (Plus r) = groupless r" "groupless (Times a b r) = groupless r"
  "groupless (LazyTimes a b r) = groupless r"
  by (simp_all add: Opt_def Star_def Plus_def Times_def LazyTimes_def)

lemma groupless_atoms [simp]:
  "groupless sep" "groupless dash_or_space" "groupless colon_or_equals" "groupless any_char"
  "groupless not_digit" "groupless quote"
  by (simp_all add: sep_def dash_or_space_def colon_or_equals_def any_char_def not_digit_def
      quote_def)





lemma consumed_same [simp]: "consumed x x = []"
  by (simp add: consumed_def)

























section \<open>The Text Normalizer\<close>

subsection \<open>Replacing the matches of a pattern that consumes input\<close>

lemma init_sel [simp]: "left (init l s) = l" "right (init l s) = s" "caps (init l s) = (\<lambda>_. None)"
  by (simp_all add: init_def)






declare replace_from.simps [simp del]







subsection \<open>Texts without tags\<close>








subsection \<open>Greedy runs of one character class\<close>

lemma advance_Nil [simp]: "advance [] x = x"
  by (simp add: advance_def)

lemma advance_sel [simp]:
  "left (advance p x) = rev p @ left x" "right (advance p x) = drop (length p) (right x)"
  "caps (advance p x) = caps x"
  by (simp_all add: advance_def)









subsection \<open>White space\<close>








subsection \<open>Literal strings\<close>

lemma Str_Nil [simp]: "Str [] = Eps"
  by (simp add: Str_def)

lemma Str_Cons [simp]: "Str (a # s) = Seq (Chr a) (Str s)"
  by (simp add: Str_def)







subsection \<open>The entity \<^verbatim>\<open>&nbsp;\<close>\<close>





subsection \<open>Numeric entities\<close>






subsection \<open>Tags\<close>

lemma gt_class [simp]: "in_class False [Single CHR ''>''] c \<longleftrightarrow> c = CHR ''>''"
  by (simp add: in_class_def)





subsection \<open>Trimming, and the result of \<open>cleanText\<close>\<close>






















end
